theory Spec2Isabelle
  imports Complex_Main "HOL-Library.Multiset"
begin

section \<open>The response text: Python's string operations\<close>

text \<open>
  The response body is a Python \<^verbatim>\<open>str\<close>.  It is modelled as a \<^typ>\<open>string\<close> whose
  characters are the code points 0..255, one \<^typ>\<open>char\<close> per code point (DART feeds
  are ASCII).  On that range \<^verbatim>\<open>str.isspace\<close> holds of the twelve code points below,
  \<^verbatim>\<open>str.splitlines\<close> breaks at eight of them, and the regular expression class
  \<^verbatim>\<open>\d\<close> is the ten ASCII digits.
\<close>

definition isspace :: "char \<Rightarrow> bool" where
  "isspace c \<longleftrightarrow>
     c \<in> set [CHR 0x09, CHR 0x0A, CHR 0x0B, CHR 0x0C, CHR 0x0D,
              CHR 0x1C, CHR 0x1D, CHR 0x1E, CHR 0x1F, CHR 0x20, CHR 0x85, CHR 0xA0]"

definition islinebreak :: "char \<Rightarrow> bool" where
  "islinebreak c \<longleftrightarrow>
     c \<in> set [CHR 0x0A, CHR 0x0B, CHR 0x0C, CHR 0x0D,
              CHR 0x1C, CHR 0x1D, CHR 0x1E, CHR 0x85]"

definition isdigit :: "char \<Rightarrow> bool" where
  "isdigit c \<longleftrightarrow> c \<in> set ''0123456789''"

text \<open>
  \<^verbatim>\<open>str.splitlines()\<close>: the line breaks are dropped, \<^verbatim>\<open>\r\n\<close> is one break, and
  there is no empty last line after a final break.  \<open>cur\<close> is the line read so far.
\<close>

fun splitlines_from :: "string \<Rightarrow> string \<Rightarrow> string list" where
  "splitlines_from cur [] = (if cur = [] then [] else [cur])"
| "splitlines_from cur (c # cs) =
     (if c = CHR 0x0D then
        (case cs of
           [] \<Rightarrow> [cur]
         | d # ds \<Rightarrow>
             if d = CHR 0x0A then cur # splitlines_from [] ds
             else cur # splitlines_from [] cs)
      else if islinebreak c then cur # splitlines_from [] cs
      else splitlines_from (cur @ [c]) cs)"

definition splitlines :: "string \<Rightarrow> string list" where
  "splitlines text = splitlines_from [] text"

text \<open>\<^verbatim>\<open>str.strip()\<close>: leading and trailing whitespace removed.\<close>

definition strip :: "string \<Rightarrow> string" where
  "strip s = rev (dropWhile isspace (rev (dropWhile isspace s)))"

text \<open>
  \<^verbatim>\<open>str.split()\<close> with no separator: the maximal runs of non-whitespace characters,
  in order; never an empty token.  \<open>cur\<close> is the token read so far.
\<close>

fun split_from :: "string \<Rightarrow> string \<Rightarrow> string list" where
  "split_from cur [] = (if cur = [] then [] else [cur])"
| "split_from cur (c # cs) =
     (if isspace c then
        (if cur = [] then split_from [] cs else cur # split_from [] cs)
      else split_from (cur @ [c]) cs)"

definition split :: "string \<Rightarrow> string list" where
  "split s = split_from [] s"

definition startswith :: "string \<Rightarrow> string \<Rightarrow> bool" where
  "startswith s p \<longleftrightarrow> take (length p) s = p"

text \<open>\<^verbatim>\<open>sep.join(xs)\<close>.\<close>

fun join :: "string \<Rightarrow> string list \<Rightarrow> string" where
  "join sep [] = []"
| "join sep [x] = x"
| "join sep (x # y # zs) = x @ sep @ join sep (y # zs)"

text \<open>\<^verbatim>\<open>re.fullmatch(r'\d{14}', s)\<close> and \<^verbatim>\<open>re.fullmatch(r'\d+', s)\<close>, as truth values.\<close>

definition fullmatch_d14 :: "string \<Rightarrow> bool" where
  "fullmatch_d14 s \<longleftrightarrow> length s = 14 \<and> list_all isdigit s"

definition fullmatch_digits :: "string \<Rightarrow> bool" where
  "fullmatch_digits s \<longleftrightarrow> s \<noteq> [] \<and> list_all isdigit s"

section \<open>Errors and the library calls\<close>

text \<open>
  Every exception of \<^verbatim>\<open>fetch_dart_data\<close> is a value.  \<open>RequestException\<close> stands for
  whatever \<^verbatim>\<open>requests.get\<close> or \<^verbatim>\<open>raise_for_status\<close> raises, \<open>DatetimeError v\<close> for
  the exception of \<^verbatim>\<open>pd.to_datetime\<close> on the value \<open>v\<close>, \<open>FloatError v\<close> for the
  \<^verbatim>\<open>ValueError\<close> of \<^verbatim>\<open>float(v)\<close>, \<open>NoData station_id\<close> for the
  \<^verbatim>\<open>ValueError\<close> raised when no record was found, and \<open>IndexError\<close> for a list
  index out of range.
\<close>

datatype error =
    RequestException
  | IndexError
  | DatetimeError string
  | FloatError string
  | NoData string

text \<open>
  The calls that leave the program are fields of a record, so that every theorem about
  the parser holds whatever they return: \<open>requests_get url\<close> is the body of the response
  (\<open>None\<close>: the request or the status check raised), \<open>to_datetime v fmt\<close> is
  \<^verbatim>\<open>pd.to_datetime(v, format=fmt, utc=True)\<close> (\<open>None\<close>: it raised), \<open>float v\<close> is
  \<^verbatim>\<open>float(v)\<close> (\<open>None\<close>: it raised), and \<open>sort_index\<close> is
  \<^verbatim>\<open>DataFrame.sort_index()\<close> on the rows of a frame indexed by timestamp.
\<close>

record ('ts, 'h) library =
  requests_get :: "string \<Rightarrow> string option"
  to_datetime :: "string \<Rightarrow> string \<Rightarrow> 'ts option"
  float :: "string \<Rightarrow> 'h option"
  sort_index :: "('ts \<times> 'h) list \<Rightarrow> ('ts \<times> 'h) list"

text \<open>\<^verbatim>\<open>xs[i]\<close> for a literal index \<open>i \<ge> 0\<close>.\<close>

definition py_index :: "'a list \<Rightarrow> nat \<Rightarrow> error + 'a" where
  "py_index xs i = (if i < length xs then Inr (xs ! i) else Inl IndexError)"

section \<open>fetch\_dart\_data: the record parser\<close>

text \<open>
  The body of the loop over the lines (wave.py, lines 34 to 54), in two parts: the
  classification of the tokens (lines 39 to 52), and the line as a whole.  The result
  is the exception raised, or \<open>Inr None\<close> where the loop runs \<^verbatim>\<open>continue\<close>, or the
  reading \<open>(ts, height)\<close> that is appended to \<^verbatim>\<open>records\<close>.  Python's \<^verbatim>\<open>and\<close>
  evaluates \<^verbatim>\<open>parts[0]\<close> before the length test, and the timestamp is converted
  before the height.
\<close>

definition parse_parts ::
  "('ts, 'h) library \<Rightarrow> string list \<Rightarrow> error + ('ts \<times> 'h) option" where
  "parse_parts lib parts =
     (case py_index parts 0 of
        Inl e \<Rightarrow> Inl e
      | Inr p0 \<Rightarrow>
          if fullmatch_d14 p0 \<and> length parts \<ge> 2 then
            (case to_datetime lib p0 ''%Y%m%d%H%M%S'' of
               None \<Rightarrow> Inl (DatetimeError p0)
             | Some ts \<Rightarrow>
                 (case py_index parts 1 of
                    Inl e \<Rightarrow> Inl e
                  | Inr p1 \<Rightarrow>
                      (case float lib p1 of
                         None \<Rightarrow> Inl (FloatError p1)
                       | Some height \<Rightarrow> Inr (Some (ts, height)))))
          else if length parts \<ge> 7 \<and> list_all fullmatch_digits (take 6 parts) then
            (let dt_str = join '' '' (take 6 parts) in
             case to_datetime lib dt_str ''%Y %m %d %H %M %S'' of
               None \<Rightarrow> Inl (DatetimeError dt_str)
             | Some ts \<Rightarrow>
                 (case py_index parts 6 of
                    Inl e \<Rightarrow> Inl e
                  | Inr p6 \<Rightarrow>
                      (case float lib p6 of
                         None \<Rightarrow> Inl (FloatError p6)
                       | Some height \<Rightarrow> Inr (Some (ts, height)))))
          else Inr None)"

definition parse_line :: "('ts, 'h) library \<Rightarrow> string \<Rightarrow> error + ('ts \<times> 'h) option" where
  "parse_line lib raw =
     (let line = strip raw in
      if line = [] \<or> startswith line ''#'' then Inr None
      else parse_parts lib (split line))"

text \<open>The loop: \<open>records\<close> is the list built so far; an exception ends it.\<close>

fun scan_lines ::
  "('ts, 'h) library \<Rightarrow> string list \<Rightarrow> ('ts \<times> 'h) list \<Rightarrow> error + ('ts \<times> 'h) list" where
  "scan_lines lib [] records = Inr records"
| "scan_lines lib (line # rest) records =
     (case parse_line lib line of
        Inl e \<Rightarrow> Inl e
      | Inr None \<Rightarrow> scan_lines lib rest records
      | Inr (Some r) \<Rightarrow> scan_lines lib rest (records @ [r]))"

text \<open>
  \<^verbatim>\<open>index.duplicated(keep='first')\<close>: the mask that is true at a position whose key
  stands at an earlier position too (\<open>seen\<close> holds the keys passed), and the frame with
  the masked rows left out.
\<close>

fun duplicated :: "'k list \<Rightarrow> 'k list \<Rightarrow> bool list" where
  "duplicated seen [] = []"
| "duplicated seen (k # ks) = (k \<in> set seen) # duplicated (k # seen) ks"

definition drop_duplicated :: "('ts \<times> 'h) list \<Rightarrow> ('ts \<times> 'h) list" where
  "drop_duplicated rows =
     map snd (filter (\<lambda>(dup, row). \<not> dup) (zip (duplicated [] (map fst rows)) rows))"

definition dart_url :: "string \<Rightarrow> string \<Rightarrow> string \<Rightarrow> string" where
  "dart_url station_id start_date end_date =
     ''https://www.ndbc.noaa.gov/dart_data.php'' @
     ''?station='' @ station_id @ ''&start='' @ start_date @ ''&end='' @ end_date"

text \<open>The statements after the loop (lines 56 to 66), and the whole function.\<close>

definition build_table ::
  "('ts, 'h) library \<Rightarrow> string \<Rightarrow> ('ts \<times> 'h) list \<Rightarrow> error + ('ts \<times> 'h) list" where
  "build_table lib station_id records =
     (if records = [] then Inl (NoData station_id)
      else Inr (drop_duplicated (sort_index lib records)))"

definition parse_text ::
  "('ts, 'h) library \<Rightarrow> string \<Rightarrow> string \<Rightarrow> error + ('ts \<times> 'h) list" where
  "parse_text lib station_id text =
     (case scan_lines lib (splitlines text) [] of
        Inl e \<Rightarrow> Inl e
      | Inr records \<Rightarrow> build_table lib station_id records)"

definition fetch_dart_data ::
  "('ts, 'h) library \<Rightarrow> string \<Rightarrow> string \<Rightarrow> string \<Rightarrow> error + ('ts \<times> 'h) list" where
  "fetch_dart_data lib station_id start_date end_date =
     (case requests_get lib (dart_url station_id start_date end_date) of
        None \<Rightarrow> Inl RequestException
      | Some text \<Rightarrow> parse_text lib station_id text)"

section \<open>main: the stations, the join and the chart\<close>

text \<open>
  A frame is the list of its rows, each a timestamp (the index) and a height.
  \<^verbatim>\<open>pd.concat(dfs, axis=1)\<close> joins the renamed frames on the index: the combined table
  has a row at every timestamp that is in the index of some frame, and the row holds one
  cell per frame, in the order of \<^verbatim>\<open>dfs\<close>: the frame's height at that timestamp, or
  \<open>None\<close> (pandas writes NaN) where the frame has no such row.  The table is a map from
  the timestamp to the row, beside the column names.  (pandas refuses frames whose
  indexes differ when one of them repeats a label; the frames of \<open>fetch_dart_data\<close>
  never do, see \<open>fetch_dart_data_index_distinct\<close> below.  Whether the call raises is
  part of \<open>run\<close>.)
\<close>

type_synonym ('ts, 'h) frame = "('ts \<times> 'h) list"

type_synonym ('ts, 'h) combined = "string list \<times> ('ts \<rightharpoonup> 'h option list)"

definition concat_axis1 :: "(string \<times> ('ts, 'h) frame) list \<Rightarrow> ('ts, 'h) combined" where
  "concat_axis1 dfs =
     (map fst dfs,
      (\<lambda>t. if list_ex (\<lambda>(name, df). t \<in> set (map fst df)) dfs
           then Some (map (\<lambda>(name, df). map_of df t) dfs)
           else None))"



definition start_date :: string where
  "start_date = ''2025-07-29''"

definition end_date :: string where
  "end_date = ''2025-07-30''"





section \<open>The library as installed: pd.to_datetime, float, sort\_index\<close>

text \<open>
  \<^verbatim>\<open>pd.to_datetime(v, format=fmt, utc=True)\<close> on the values the parser passes: a token
  of fourteen digits with \<^verbatim>\<open>'%Y%m%d%H%M%S'\<close>, and six tokens of digits joined by
  single spaces with \<^verbatim>\<open>'%Y %m %d %H %M %S'\<close>.  Neither format is ISO 8601, so pandas
  matches the value against the regular expression that \<^verbatim>\<open>strptime\<close> builds for
  the format and wants the match to end where the value ends.  The directives are
  \<^verbatim>\<open>%Y\<close>: four digits; \<^verbatim>\<open>%m\<close>: 1..12; \<^verbatim>\<open>%d\<close>: 1..31; \<^verbatim>\<open>%H\<close>: 0..23;
  \<^verbatim>\<open>%M\<close>: 0..59; \<^verbatim>\<open>%S\<close>: 0..61; each of the last five in one or two digits.
  Without separators a value of fourteen digits matches to its end exactly when every
  field takes two digits.  The date is then checked as \<^verbatim>\<open>datetime.date\<close> checks it, and
  the instant is computed from the fields; it is counted here in seconds since
  1970-01-01T00:00:00Z.  (Outside the two call patterns of the parser the model is
  \<open>None\<close>.  An instant beyond what the installed pandas represents, which depends on its
  version, is an exception in pandas and is not modelled.)
\<close>

definition int_of_digits :: "string \<Rightarrow> nat" where
  "int_of_digits s = foldl (\<lambda>n c. 10 * n + (of_char c - 48)) 0 s"

definition field_ok :: "string \<Rightarrow> nat \<Rightarrow> nat \<Rightarrow> bool" where
  "field_ok tok lo hi \<longleftrightarrow>
     (length tok = 1 \<or> length tok = 2) \<and> list_all isdigit tok \<and>
     lo \<le> int_of_digits tok \<and> int_of_digits tok \<le> hi"

definition strptime_groups :: "string list \<Rightarrow> nat list option" where
  "strptime_groups g =
     (case g of
        [Y, m, d, H, M, S] \<Rightarrow>
          if length Y = 4 \<and> list_all isdigit Y \<and> field_ok m 1 12 \<and> field_ok d 1 31 \<and>
             field_ok H 0 23 \<and> field_ok M 0 59 \<and> field_ok S 0 61
          then Some (map int_of_digits g) else None
      | _ \<Rightarrow> None)"

definition is_leap :: "nat \<Rightarrow> bool" where
  "is_leap year \<longleftrightarrow> year mod 4 = 0 \<and> (year mod 100 \<noteq> 0 \<or> year mod 400 = 0)"

definition days_in_month :: "nat \<Rightarrow> nat \<Rightarrow> nat" where
  "days_in_month year month =
     (if month = 2 \<and> is_leap year then 29
      else [31, 28, 31, 30, 31, 30, 31, 31, 30, 31, 30, 31] ! (month - 1))"

definition check_date_fields :: "nat \<Rightarrow> nat \<Rightarrow> nat \<Rightarrow> bool" where
  "check_date_fields year month day \<longleftrightarrow>
     1 \<le> year \<and> year \<le> 9999 \<and> 1 \<le> month \<and> month \<le> 12 \<and>
     1 \<le> day \<and> day \<le> days_in_month year month"

definition days_before_year :: "nat \<Rightarrow> int" where
  "days_before_year year =
     (let y = int year - 1 in y * 365 + y div 4 - y div 100 + y div 400)"

definition days_before_month :: "nat \<Rightarrow> nat \<Rightarrow> int" where
  "days_before_month year month =
     [0, 31, 59, 90, 120, 151, 181, 212, 243, 273, 304, 334] ! (month - 1) +
     (if month > 2 \<and> is_leap year then 1 else 0)"

definition ymd2ord :: "nat \<Rightarrow> nat \<Rightarrow> nat \<Rightarrow> int" where
  "ymd2ord year month day =
     days_before_year year + days_before_month year month + int day"

definition utc_seconds :: "nat \<Rightarrow> nat \<Rightarrow> nat \<Rightarrow> nat \<Rightarrow> nat \<Rightarrow> nat \<Rightarrow> int" where
  "utc_seconds year month day hour minute second =
     (ymd2ord year month day - 719163) * 86400 +
     int hour * 3600 + int minute * 60 + int second"

definition to_timestamp :: "nat list \<Rightarrow> int option" where
  "to_timestamp g =
     (case g of
        [year, month, day, hour, minute, second] \<Rightarrow>
          if check_date_fields year month day
          then Some (utc_seconds year month day hour minute second) else None
      | _ \<Rightarrow> None)"

definition combined_groups :: "string \<Rightarrow> string list" where
  "combined_groups v =
     [take 4 v, take 2 (drop 4 v), take 2 (drop 6 v), take 2 (drop 8 v),
      take 2 (drop 10 v), take 2 (drop 12 v)]"

definition pd_to_datetime :: "string \<Rightarrow> string \<Rightarrow> int option" where
  "pd_to_datetime v fmt =
     (if fmt = ''%Y%m%d%H%M%S'' then
        (if fullmatch_d14 v
         then Option.bind (strptime_groups (combined_groups v)) to_timestamp else None)
      else if fmt = ''%Y %m %d %H %M %S'' then
        (if strip v = v
         then Option.bind (strptime_groups (split v)) to_timestamp else None)
      else None)"

text \<open>
  A stand-in for \<^verbatim>\<open>float\<close> in the worked examples: the plain decimal tokens (an
  optional sign, digits, an optional point and digits), with their exact value; every
  other token is taken to raise.  No theorem below depends on it but the examples.
\<close>

definition decimal_float :: "string \<Rightarrow> rat option" where
  "decimal_float v =
     (let (neg, u) =
            (case v of
               [] \<Rightarrow> (False, [])
             | c # r \<Rightarrow>
                 if c = CHR ''-'' then (True, r)
                 else if c = CHR ''+'' then (False, r) else (False, v));
          ip = takeWhile isdigit u;
          rest = dropWhile isdigit u;
          fp = (case rest of [] \<Rightarrow> [] | c # r \<Rightarrow> r);
          well =
            (case rest of
               [] \<Rightarrow> ip \<noteq> []
             | c # r \<Rightarrow> c = CHR ''.'' \<and> list_all isdigit r \<and> (ip \<noteq> [] \<or> r \<noteq> []));
          mag = of_nat (int_of_digits (ip @ fp)) / 10 ^ length fp
      in if well then Some (if neg then - mag else mag) else None)"

text \<open>
  \<^verbatim>\<open>sort_index()\<close> returns the rows in ascending order of the index.  Its default
  algorithm is \<^verbatim>\<open>kind='quicksort'\<close>, which pandas documents as not stable: the order
  it leaves among rows of equal timestamps is not fixed by the program.  \<open>sorts_rows\<close> is
  what every algorithm guarantees.
\<close>

definition sorts_rows :: "(('ts::linorder \<times> 'h) list \<Rightarrow> ('ts \<times> 'h) list) \<Rightarrow> bool" where
  "sorts_rows srt \<longleftrightarrow>
     (\<forall>rows. mset (srt rows) = mset rows \<and> sorted (map fst (srt rows)))"

text \<open>
  Two libraries for the examples, where every request gets the same response (\<open>None\<close>:
  the request fails): one whose sort keeps rows of equal timestamps in their order, one
  whose sort reverses them.
\<close>

definition sample_library :: "string option \<Rightarrow> (int, rat) library" where
  "sample_library response =
     \<lparr>requests_get = (\<lambda>url. response), to_datetime = pd_to_datetime, float = decimal_float,
      sort_index = sort_key fst\<rparr>"

definition reversing_library :: "string option \<Rightarrow> (int, rat) library" where
  "reversing_library response =
     \<lparr>requests_get = (\<lambda>url. response), to_datetime = pd_to_datetime, float = decimal_float,
      sort_index = (\<lambda>rows. sort_key fst (rev rows))\<rparr>"




section \<open>Notions of the specification\<close>

text \<open>
  A line that is blank (whitespace only), or whose first character that is not
  whitespace is \<^verbatim>\<open>#\<close>.
\<close>

definition blank_or_comment :: "string \<Rightarrow> bool" where
  "blank_or_comment l \<longleftrightarrow>
     (case dropWhile isspace l of [] \<Rightarrow> True | c # r \<Rightarrow> c = CHR ''#'')"




text \<open>The reading that a line contributes to \<^verbatim>\<open>records\<close>, if it contributes one.\<close>

definition reading_of :: "('ts, 'h) library \<Rightarrow> string \<Rightarrow> ('ts \<times> 'h) option" where
  "reading_of lib l = (case parse_line lib l of Inr (Some r) \<Rightarrow> Some r | _ \<Rightarrow> None)"

text \<open>
  A feed of eighteen records, the newest first, whose first two lines carry the same
  timestamp with the heights 1 and 2.
\<close>

definition newest_first_feed :: string where
  "newest_first_feed =
     join ''\<newline>''
     [''20250729121700 1'', ''20250729121700 2'', ''20250729121600 0'',
      ''20250729121500 0'', ''20250729121400 0'', ''20250729121300 0'',
      ''20250729121200 0'', ''20250729121100 0'', ''20250729121000 0'',
      ''20250729120900 0'', ''20250729120800 0'', ''20250729120700 0'',
      ''20250729120600 0'', ''20250729120500 0'', ''20250729120400 0'',
      ''20250729120300 0'', ''20250729120200 0'', ''20250729120100 0'']"

section \<open>Evaluation\<close>

text \<open>
  The definitions that the simplifier unfolds to run the model on a concrete line, a
  concrete timestamp or a concrete height.
\<close>

lemmas line_eval =
  parse_line_def strip_def split_def isspace_def startswith_def parse_parts_def py_index_def
  fullmatch_digits_def

lemmas datetime_eval =
  pd_to_datetime_def fullmatch_d14_def isdigit_def strptime_groups_def combined_groups_def
  field_ok_def int_of_digits_def to_timestamp_def check_date_fields_def days_in_month_def
  is_leap_def utc_seconds_def ymd2ord_def days_before_year_def days_before_month_def

lemmas float_eval = decimal_float_def isdigit_def int_of_digits_def

section \<open>The tokens of a line\<close>

lemma split_from_cur_nonempty: "cur \<noteq> [] \<Longrightarrow> split_from cur s \<noteq> []"
  by (induction s arbitrary: cur) auto

lemma split_from_first_token:
  "cur \<noteq> [] \<Longrightarrow> \<exists>r rest. split_from cur s = (cur @ r) # rest"
proof (induction s arbitrary: cur)
  case Nil
  then show ?case by simp
next
  case (Cons c cs)
  show ?case
  proof (cases "isspace c")
    case True
    with Cons.prems show ?thesis by auto
  next
    case False
    from Cons.IH [of "cur @ [c]"] obtain r rest
      where "split_from (cur @ [c]) cs = ((cur @ [c]) @ r) # rest" by auto
    with False show ?thesis by auto
  qed
qed

lemma split_from_all_space:
  "\<forall>c\<in>set s. isspace c \<Longrightarrow> split_from cur s = (if cur = [] then [] else [cur])"
  by (induction s arbitrary: cur) auto

lemma split_from_dropWhile: "split_from [] (dropWhile isspace s) = split_from [] s"
  by (induction s) auto

lemma split_from_drop_trailing:
  "split_from cur (rev (dropWhile isspace (rev t))) = split_from cur t"
proof (induction t arbitrary: cur)
  case Nil
  show ?case by simp
next
  case (Cons x xs)
  show ?case
  proof (cases "\<forall>y\<in>set xs. isspace y")
    case True
    have d: "dropWhile isspace (rev xs @ [x]) = dropWhile isspace [x]"
      by (rule dropWhile_append2) (use True in auto)
    show ?thesis using True by (simp add: d split_from_all_space)
  next
    case False
    then have "dropWhile isspace (rev xs @ [x]) = dropWhile isspace (rev xs) @ [x]"
      by (auto simp: dropWhile_append1)
    then show ?thesis using Cons.IH by simp
  qed
qed

lemma split_strip: "split (strip s) = split s"
  by (simp add: split_def strip_def split_from_drop_trailing split_from_dropWhile)

lemma rev_dropWhile_rev_take:
  "rev (dropWhile P (rev t)) = take (length (dropWhile P (rev t))) t"
proof -
  let ?k = "length (takeWhile P (rev t))"
  have "dropWhile P (rev t) = drop ?k (rev t)" by (rule dropWhile_eq_drop)
  then have "rev (dropWhile P (rev t)) = take (length t - ?k) t \<and>
             length (dropWhile P (rev t)) = length t - ?k"
    by (simp add: rev_drop)
  then show ?thesis by simp
qed

lemma strip_Nil: "dropWhile isspace s = [] \<Longrightarrow> strip s = []"
  unfolding strip_def by (simp only: rev.simps dropWhile.simps)

lemma strip_Cons:
  assumes "dropWhile isspace s = c # r"
  shows "\<exists>r'. strip s = c # r'"
proof -
  have c: "\<not> isspace c" using hd_dropWhile [of isspace s] assms by simp
  let ?n = "length (dropWhile isspace (rev (c # r)))"
  have "strip s = take ?n (c # r)"
    unfolding strip_def assms by (rule rev_dropWhile_rev_take)
  moreover have "dropWhile isspace (rev (c # r)) \<noteq> []" using c by (simp add: dropWhile_append3)
  then have "0 < ?n" by simp
  ultimately show ?thesis by (cases ?n) auto
qed

lemma strip_hd_nonspace:
  assumes "strip s \<noteq> []"
  shows "\<not> isspace (hd (strip s))"
proof (cases "dropWhile isspace s")
  case Nil
  then show ?thesis using assms strip_Nil by blast
next
  case (Cons c r)
  then obtain r' where "strip s = c # r'" using strip_Cons by blast
  moreover have "\<not> isspace c" using hd_dropWhile [of isspace s] Cons by simp
  ultimately show ?thesis by simp
qed

lemma split_strip_nonempty: "strip s \<noteq> [] \<Longrightarrow> split (strip s) \<noteq> []"
  using strip_hd_nonspace [of s]
  by (cases "strip s") (auto simp: split_def split_from_cur_nonempty)

lemma parse_line_no_IndexError: "parse_line lib raw \<noteq> Inl IndexError"
  using split_strip_nonempty [of raw]
  by (auto simp: parse_line_def parse_parts_def Let_def py_index_def split: sum.splits option.splits)

lemma scan_lines_no_IndexError: "scan_lines lib lines records \<noteq> Inl IndexError"
  by (induction lines arbitrary: records)
     (auto simp: parse_line_no_IndexError split: sum.splits option.splits)

lemma parse_text_no_IndexError: "parse_text lib sid text \<noteq> Inl IndexError"
  by (auto simp: parse_text_def build_table_def scan_lines_no_IndexError split: sum.splits)

text \<open>
  Claim C9.  The list of tokens is never read out of range: \<^verbatim>\<open>parts[0]\<close> is read only
  on a line that is not empty after \<^verbatim>\<open>strip\<close>, whose list of tokens is therefore not
  empty, and \<^verbatim>\<open>parts[1]\<close> and \<^verbatim>\<open>parts[6]\<close> only under the tests of at least two and
  at least seven tokens.  So neither the loop over the lines, from any list of lines and
  any records so far, nor \<open>fetch_dart_data\<close> ever ends in an \<open>IndexError\<close>, whatever
  the library calls return.
\<close>

theorem token_indexing_in_bounds:
  "scan_lines lib lines records \<noteq> Inl IndexError \<and>
   fetch_dart_data lib station_id start end \<noteq> Inl IndexError"
  by (auto simp: fetch_dart_data_def scan_lines_no_IndexError parse_text_no_IndexError
           split: option.splits)

lemma blank_or_comment_skipped:
  assumes "blank_or_comment l"
  shows "parse_line lib l = Inr None"
proof (cases "dropWhile isspace l")
  case Nil
  then show ?thesis by (simp add: parse_line_def strip_Nil)
next
  case (Cons c r)
  with assms have "c = CHR ''#''" by (simp add: blank_or_comment_def)
  moreover obtain r' where "strip l = c # r'" using strip_Cons [OF Cons] by blast
  ultimately show ?thesis by (simp add: parse_line_def startswith_def)
qed

lemma scan_lines_all_skipped:
  "\<forall>l\<in>set lines. parse_line lib l = Inr None \<Longrightarrow> scan_lines lib lines records = Inr records"
  by (induction lines arbitrary: records) auto

text \<open>
  Claim C6.  When the response text has only blank lines and lines whose first character
  that is not whitespace is \<^verbatim>\<open>#\<close>, \<open>fetch_dart_data\<close> returns no table: it raises the
  no-data error, which names the station.
\<close>

theorem blank_and_comment_lines_give_NoData:
  assumes "requests_get lib (dart_url station_id start end) = Some text"
    and "\<forall>l\<in>set (splitlines text). blank_or_comment l"
  shows "fetch_dart_data lib station_id start end = Inl (NoData station_id)"
proof -
  have "scan_lines lib (splitlines text) [] = Inr []"
    using assms(2) by (intro scan_lines_all_skipped) (simp add: blank_or_comment_skipped)
  then show ?thesis using assms(1)
    by (simp add: fetch_dart_data_def parse_text_def build_table_def)
qed

theorem blank_and_comment_lines_give_NoData_witness:
  "fetch_dart_data (sample_library (Some ''# time height\<newline>\<newline>   \<newline>  #x 1 2''))
     ''21416'' start_date end_date = Inl (NoData ''21416'')"
  using blank_and_comment_lines_give_NoData
    [of "sample_library (Some ''# time height\<newline>\<newline>   \<newline>  #x 1 2'')" "''21416''"
        start_date end_date "''# time height\<newline>\<newline>   \<newline>  #x 1 2''"]
  by (simp add: sample_library_def splitlines_def blank_or_comment_def isspace_def
        islinebreak_def)

section \<open>The classification of a line\<close>

lemma parse_line_digit_first:
  assumes sp: "split raw = p # ps" and p: "p \<noteq> []" "list_all isdigit p"
  shows "parse_line lib raw = parse_parts lib (p # ps)"
proof -
  have ss: "split (strip raw) = p # ps" using sp by (simp add: split_strip)
  have ne: "strip raw \<noteq> []"
  proof
    assume "strip raw = []"
    then have "split (strip raw) = []" by (simp add: split_def)
    with ss show False by simp
  qed
  then obtain c r where cr: "strip raw = c # r" by (cases "strip raw") auto
  have c: "\<not> isspace c" using strip_hd_nonspace [OF ne] cr by simp
  obtain r' rest where "split_from [c] r = ([c] @ r') # rest"
    using split_from_first_token [of "[c]" r] by auto
  with c cr ss have "p = c # r'" by (simp add: split_def)
  with p have "isdigit c" by simp
  then have "c \<noteq> CHR ''#''" by (auto simp: isdigit_def)
  with cr have "\<not> startswith (strip raw) ''#''" by (simp add: startswith_def)
  with ne ss show ?thesis by (simp add: parse_line_def)
qed

text \<open>
  Claim C2.  The tests are tried in the order of the source and the first that holds
  decides.  A line whose first token is fourteen digits and which has the shape of the
  second case too (seven tokens or more, the first six all digits) is read by the first
  case: the timestamp is the first token converted with \<^verbatim>\<open>'%Y%m%d%H%M%S'\<close>, the height
  is the second token, and the seventh token is not read.
\<close>

theorem combined_timestamp_wins_over_split_fields:
  assumes "parts = split raw"
    and "fullmatch_d14 (parts ! 0)"
    and "7 \<le> length parts"
    and "list_all fullmatch_digits (take 6 parts)"
  shows "parse_line lib raw =
     (case to_datetime lib (parts ! 0) ''%Y%m%d%H%M%S'' of
        None \<Rightarrow> Inl (DatetimeError (parts ! 0))
      | Some ts \<Rightarrow>
          (case float lib (parts ! 1) of
             None \<Rightarrow> Inl (FloatError (parts ! 1))
           | Some height \<Rightarrow> Inr (Some (ts, height))))"
proof -
  obtain p ps where pp: "parts = p # ps" using assms(3) by (cases parts) auto
  have p: "p \<noteq> []" "list_all isdigit p"
    using assms(2) pp by (auto simp: fullmatch_d14_def)
  have "parse_line lib raw = parse_parts lib parts"
    using parse_line_digit_first [of raw p ps lib] assms(1) pp p by simp
  also have "\<dots> = (case to_datetime lib (parts ! 0) ''%Y%m%d%H%M%S'' of
        None \<Rightarrow> Inl (DatetimeError (parts ! 0))
      | Some ts \<Rightarrow>
          (case float lib (parts ! 1) of
             None \<Rightarrow> Inl (FloatError (parts ! 1))
           | Some height \<Rightarrow> Inr (Some (ts, height))))"
  proof -
    have i: "py_index parts 0 = Inr (parts ! 0)" "py_index parts 1 = Inr (parts ! 1)"
      using assms(3) by (auto simp: py_index_def)
    have "2 \<le> length parts" using assms(3) by simp
    with assms(2) i show ?thesis by (simp add: parse_parts_def split: option.splits)
  qed
  finally show ?thesis .
qed

lemma tokens_of_overlap_line: "split ''  20250729120000 1 2 3 4 5 9.5'' =
    [''20250729120000'', ''1'', ''2'', ''3'', ''4'', ''5'', ''9.5'']"
  by code_simp

lemma noon_combined_timestamp: "pd_to_datetime ''20250729120000'' ''%Y%m%d%H%M%S'' = Some 1753790400"
  by (simp add: datetime_eval)

lemma decimal_float_one: "decimal_float ''1'' = Some 1"
  by (simp add: float_eval)

theorem combined_timestamp_wins_over_split_fields_witness:
  "parse_line (sample_library None) ''  20250729120000 1 2 3 4 5 9.5'' =
     Inr (Some (1753790400, 1))"
  using combined_timestamp_wins_over_split_fields
    [of "[''20250729120000'', ''1'', ''2'', ''3'', ''4'', ''5'', ''9.5'']"
        "''  20250729120000 1 2 3 4 5 9.5''" "sample_library None"]
  by (simp add: tokens_of_overlap_line noon_combined_timestamp decimal_float_one sample_library_def fullmatch_d14_def
        fullmatch_digits_def isdigit_def)

lemma scan_lines_aborts:
  "raw \<in> set lines \<Longrightarrow> parse_line lib raw = Inl e \<Longrightarrow>
   \<exists>e'. scan_lines lib lines records = Inl e'"
  by (induction lines arbitrary: records) (auto split: sum.splits option.splits)

lemma fetch_aborts:
  assumes "requests_get lib (dart_url station_id start end) = Some text"
    and "raw \<in> set (splitlines text)" and "parse_line lib raw = Inl e"
  shows "\<exists>e'. fetch_dart_data lib station_id start end = Inl e'"
proof -
  obtain e' where "scan_lines lib (splitlines text) [] = Inl e'"
    using scan_lines_aborts [OF assms(2,3)] by blast
  then show ?thesis using assms(1) by (simp add: fetch_dart_data_def parse_text_def)
qed

text \<open>
  Claim C3.  When some line of the response text has one of the two record shapes and
  \<^verbatim>\<open>float\<close> raises on its height token (the second token in the first case, the
  seventh in the second), \<open>fetch_dart_data\<close> ends in an exception: no table is
  returned, whatever the other lines hold.
\<close>

theorem unparsable_height_fails_whole_fetch:
  assumes "requests_get lib (dart_url station_id start end) = Some text"
    and "raw \<in> set (splitlines text)"
    and "parts = split raw"
    and "(fullmatch_d14 (parts ! 0) \<and> 2 \<le> length parts \<and> float lib (parts ! 1) = None) \<or>
         (\<not> fullmatch_d14 (parts ! 0) \<and> 7 \<le> length parts \<and>
          list_all fullmatch_digits (take 6 parts) \<and> float lib (parts ! 6) = None)"
  shows "\<exists>e. fetch_dart_data lib station_id start end = Inl e"
proof -
  obtain p ps where pp: "parts = p # ps" using assms(4) by (cases parts) auto
  have p: "p \<noteq> []" "list_all isdigit p"
    using assms(4) pp by (auto simp: fullmatch_d14_def fullmatch_digits_def)
  have "parse_line lib raw = parse_parts lib parts"
    using parse_line_digit_first [of raw p ps lib] assms(3) pp p by simp
  moreover have "\<exists>e. parse_parts lib parts = Inl e"
    using assms(4) by (auto simp: parse_parts_def py_index_def Let_def split: option.splits)
  ultimately obtain e where "parse_line lib raw = Inl e" by auto
  then show ?thesis using fetch_aborts [OF assms(1,2)] by blast
qed

lemma lines_of_bad_height_text: "splitlines ''20250729120000 1.5\<newline>20250729130000 abc\<newline>20250729140000 2.5'' =
   [''20250729120000 1.5'', ''20250729130000 abc'', ''20250729140000 2.5'']"
  by code_simp

lemma tokens_of_bad_height_line: "split ''20250729130000 abc'' = [''20250729130000'', ''abc'']"
  by code_simp

lemma decimal_float_abc: "decimal_float ''abc'' = None"
  by (simp add: float_eval)

theorem unparsable_height_fails_whole_fetch_witness:
  "\<exists>e. fetch_dart_data
     (sample_library (Some ''20250729120000 1.5\<newline>20250729130000 abc\<newline>20250729140000 2.5''))
     ''21416'' start_date end_date = Inl e"
  using unparsable_height_fails_whole_fetch
    [of "sample_library (Some ''20250729120000 1.5\<newline>20250729130000 abc\<newline>20250729140000 2.5'')"
        "''21416''" start_date end_date
        "''20250729120000 1.5\<newline>20250729130000 abc\<newline>20250729140000 2.5''"
        "''20250729130000 abc''" "[''20250729130000'', ''abc'']"]
  by (simp add: lines_of_bad_height_text tokens_of_bad_height_line decimal_float_abc sample_library_def fullmatch_d14_def isdigit_def)

section \<open>The two example lines\<close>

lemma sort_singleton:
  assumes "sorts_rows srt"
  shows "srt [r] = [r]"
proof -
  have "mset (srt [r]) = {#r#}" using assms by (simp add: sorts_rows_def)
  then show ?thesis by (simp add: mset_single_iff_right)
qed

lemma drop_duplicated_singleton: "drop_duplicated [r] = [r]"
  by (simp add: drop_duplicated_def)

lemma noon_utc_seconds: "utc_seconds 2025 7 29 12 0 0 = 1753790400"
  by (simp add: datetime_eval)

lemma noon_split_timestamp:
  "pd_to_datetime ''2025 07 29 12 00 00'' ''%Y %m %d %H %M %S'' = Some 1753790400"
  by (simp add: datetime_eval strip_def split_def isspace_def)

lemma lines_of_combined_example: "splitlines ''20250729120000 1.234'' = [''20250729120000 1.234'']"
  by code_simp

lemma tokens_of_combined_example:
  "split ''20250729120000 1.234'' = [''20250729120000'', ''1.234'']"
  by code_simp

lemma lines_of_split_example:
  "splitlines ''2025 07 29 12 00 00 1.234 extra ignored'' =
     [''2025 07 29 12 00 00 1.234 extra ignored'']"
  by code_simp

lemma tokens_of_split_example:
  "split ''2025 07 29 12 00 00 1.234 extra ignored'' =
     [''2025'', ''07'', ''29'', ''12'', ''00'', ''00'', ''1.234'', ''extra'', ''ignored'']"
  by code_simp

lemma parse_line_combined_example:
  assumes "to_datetime lib = pd_to_datetime" and "float lib ''1.234'' = Some height"
  shows "parse_line lib ''20250729120000 1.234'' = Inr (Some (1753790400, height))"
proof -
  have "parse_line lib ''20250729120000 1.234'' =
          parse_parts lib [''20250729120000'', ''1.234'']"
    using parse_line_digit_first [OF tokens_of_combined_example, of lib]
    by (simp add: isdigit_def)
  then show ?thesis using assms
    by (simp add: parse_parts_def py_index_def fullmatch_d14_def isdigit_def
          noon_combined_timestamp)
qed

text \<open>
  Claim C4.  The text of the single line \<^verbatim>\<open>20250729120000 1.234\<close> yields exactly one
  reading: its timestamp is 2025-07-29T12:00:00Z and its height is what \<^verbatim>\<open>float\<close>
  returns on the token \<^verbatim>\<open>1.234\<close>.  The loop over the lines collects this one record,
  and it is the one row of the table.
\<close>

theorem combined_line_example:
  fixes lib :: "(int, 'h) library"
  assumes "to_datetime lib = pd_to_datetime"
    and "float lib ''1.234'' = Some height"
    and "sorts_rows (sort_index lib)"
    and "requests_get lib (dart_url station_id start end) = Some ''20250729120000 1.234''"
  shows "scan_lines lib (splitlines ''20250729120000 1.234'') [] =
           Inr [(utc_seconds 2025 7 29 12 0 0, height)] \<and>
         fetch_dart_data lib station_id start end =
           Inr [(utc_seconds 2025 7 29 12 0 0, height)]"
proof -
  have "scan_lines lib (splitlines ''20250729120000 1.234'') [] = Inr [(1753790400, height)]"
    using parse_line_combined_example [OF assms(1,2)]
    by (simp add: lines_of_combined_example)
  then show ?thesis using assms(3,4)
    by (simp add: fetch_dart_data_def parse_text_def build_table_def sort_singleton
          drop_duplicated_singleton noon_utc_seconds)
qed

lemma sample_library_simps:
  "requests_get (sample_library response) url = response"
  "to_datetime (sample_library response) = pd_to_datetime"
  "float (sample_library response) = decimal_float"
  "sort_index (sample_library response) = sort_key fst"
  by (simp_all add: sample_library_def)

lemma decimal_float_1234: "decimal_float ''1.234'' = Some (1234 / 1000)"
  by (simp add: float_eval)

lemma sorts_rows_sort_key: "sorts_rows (sort_key fst)"
  by (simp add: sorts_rows_def)

theorem combined_line_example_witness:
  "fetch_dart_data (sample_library (Some ''20250729120000 1.234'')) ''21416'' start_date end_date =
     Inr [(1753790400, 1234 / 1000)]"
  using combined_line_example
    [of "sample_library (Some ''20250729120000 1.234'')" "1234 / 1000" "''21416''"
        start_date end_date]
  by (simp add: sample_library_simps decimal_float_1234 sorts_rows_sort_key noon_utc_seconds)

lemma parse_parts_first_seven:
  assumes "7 \<le> length parts"
  shows "parse_parts lib parts = parse_parts lib (take 7 parts)"
proof -
  have "py_index (take 7 parts) 0 = py_index parts 0"
       "py_index (take 7 parts) 1 = py_index parts 1"
       "py_index (take 7 parts) 6 = py_index parts 6"
    using assms by (auto simp: py_index_def)
  moreover have "take 6 (take 7 parts) = take 6 parts" by simp
  moreover have "(2 \<le> length (take 7 parts)) = (2 \<le> length parts)"
       "(7 \<le> length (take 7 parts)) = (7 \<le> length parts)"
    using assms by auto
  ultimately show ?thesis unfolding parse_parts_def by (simp only:)
qed

lemma parse_line_split_example:
  assumes "to_datetime lib = pd_to_datetime" and "float lib ''1.234'' = Some height"
  shows "parse_line lib ''2025 07 29 12 00 00 1.234 extra ignored'' =
           Inr (Some (1753790400, height))"
proof -
  have "parse_line lib ''2025 07 29 12 00 00 1.234 extra ignored'' =
          parse_parts lib
            [''2025'', ''07'', ''29'', ''12'', ''00'', ''00'', ''1.234'', ''extra'', ''ignored'']"
    using parse_line_digit_first [OF tokens_of_split_example, of lib]
    by (simp add: isdigit_def)
  then show ?thesis using assms
    by (simp add: parse_parts_def py_index_def fullmatch_d14_def fullmatch_digits_def
          isdigit_def noon_split_timestamp)
qed

text \<open>
  Claim C5.  The text of the single line
  \<^verbatim>\<open>2025 07 29 12 00 00 1.234 extra ignored\<close> yields exactly one reading, at
  2025-07-29T12:00:00Z with the height of the token \<^verbatim>\<open>1.234\<close>.  The tokens after the
  seventh are not read: on any list of seven tokens or more the classification is that
  of its first seven tokens.
\<close>

theorem split_line_example:
  fixes lib :: "(int, 'h) library"
  assumes "to_datetime lib = pd_to_datetime"
    and "float lib ''1.234'' = Some height"
    and "sorts_rows (sort_index lib)"
    and "requests_get lib (dart_url station_id start end) =
           Some ''2025 07 29 12 00 00 1.234 extra ignored''"
    and "7 \<le> length parts"
  shows "scan_lines lib (splitlines ''2025 07 29 12 00 00 1.234 extra ignored'') [] =
           Inr [(utc_seconds 2025 7 29 12 0 0, height)] \<and>
         fetch_dart_data lib station_id start end =
           Inr [(utc_seconds 2025 7 29 12 0 0, height)] \<and>
         parse_parts lib parts = parse_parts lib (take 7 parts)"
proof -
  have "scan_lines lib (splitlines ''2025 07 29 12 00 00 1.234 extra ignored'') [] =
          Inr [(1753790400, height)]"
    using parse_line_split_example [OF assms(1,2)]
    by (simp add: lines_of_split_example)
  then show ?thesis using assms(3,4) parse_parts_first_seven [OF assms(5)]
    by (simp add: fetch_dart_data_def parse_text_def build_table_def sort_singleton
          drop_duplicated_singleton noon_utc_seconds)
qed

theorem split_line_example_witness:
  "fetch_dart_data (sample_library (Some ''2025 07 29 12 00 00 1.234 extra ignored''))
     ''21416'' start_date end_date = Inr [(1753790400, 1234 / 1000)] \<and>
   parse_parts (sample_library (Some ''2025 07 29 12 00 00 1.234 extra ignored''))
     [''2025'', ''07'', ''29'', ''12'', ''00'', ''00'', ''1.234'', ''extra'', ''ignored''] =
   parse_parts (sample_library (Some ''2025 07 29 12 00 00 1.234 extra ignored''))
     [''2025'', ''07'', ''29'', ''12'', ''00'', ''00'', ''1.234'']"
  using split_line_example
    [of "sample_library (Some ''2025 07 29 12 00 00 1.234 extra ignored'')" "1234 / 1000"
        "''21416''" start_date end_date
        "[''2025'', ''07'', ''29'', ''12'', ''00'', ''00'', ''1.234'', ''extra'', ''ignored'']"]
  by (simp add: sample_library_simps decimal_float_1234 sorts_rows_sort_key noon_utc_seconds)

section \<open>Timestamps that are no date\<close>


















section \<open>Duplicate timestamps\<close>

lemma scan_lines_records:
  "scan_lines lib lines acc = Inr records \<Longrightarrow>
   records = acc @ List.map_filter (reading_of lib) lines"
proof (induction lines arbitrary: acc)
  case Nil
  then show ?case by (simp add: map_filter_simps)
next
  case (Cons l rest)
  show ?case
  proof (cases "parse_line lib l")
    case (Inl e)
    with Cons.prems show ?thesis by simp
  next
    case (Inr o1)
    show ?thesis
    proof (cases o1)
      case None
      with Inr Cons show ?thesis by (simp add: map_filter_simps reading_of_def)
    next
      case (Some r)
      with Inr Cons.prems have "scan_lines lib rest (acc @ [r]) = Inr records" by simp
      from Cons.IH [OF this] Inr Some show ?thesis
        by (simp add: map_filter_simps reading_of_def)
    qed
  qed
qed

lemma reading_of_Some: "reading_of lib l = Some r \<longleftrightarrow> parse_line lib l = Inr (Some r)"
  by (auto simp: reading_of_def split: sum.splits option.splits)

lemma filter_undup:
  "filter (\<lambda>row. fst row = t)
     (map snd (filter (\<lambda>(dup, row). \<not> dup) (zip (duplicated seen (map fst rows)) rows))) =
   (if t \<in> set seen then [] else take 1 (filter (\<lambda>row. fst row = t) rows))"
  by (induction rows arbitrary: seen) auto

lemma filter_drop_duplicated:
  "filter (\<lambda>row. fst row = t) (drop_duplicated rows) = take 1 (filter (\<lambda>row. fst row = t) rows)"
  by (simp add: drop_duplicated_def filter_undup)

lemma keys_undup:
  "distinct (map fst (map snd (filter (\<lambda>(dup, row). \<not> dup)
       (zip (duplicated seen (map fst rows)) rows)))) \<and>
   set (map fst (map snd (filter (\<lambda>(dup, row). \<not> dup)
       (zip (duplicated seen (map fst rows)) rows)))) \<inter> set seen = {}"
proof (induction rows arbitrary: seen)
  case Nil
  show ?case by simp
next
  case (Cons r rows)
  from Cons [of "fst r # seen"] show ?case by auto
qed

lemma drop_duplicated_distinct: "distinct (map fst (drop_duplicated rows))"
  using keys_undup [of "[]" rows] by (simp add: drop_duplicated_def)

text \<open>
  What the two statements after the loop do at a timestamp that several lines carry.
  When two lines of the text are readings with the same timestamp and no line raises,
  the table returned has exactly one row with that timestamp, and its height is that of
  a line of the text with that timestamp: the row that \<^verbatim>\<open>sort_index()\<close> puts first
  among the rows of that timestamp.  It is the height of the first such line of the text
  when \<^verbatim>\<open>sort_index()\<close> leaves the rows of that timestamp in the order of the text.
\<close>

lemma duplicate_timestamp_keeps_first_sorted_row:
  fixes lib :: "('ts::linorder, 'h) library"
  assumes "requests_get lib (dart_url station_id start end) = Some text"
    and "scan_lines lib (splitlines text) [] = Inr records"
    and "splitlines text = before @ l1 # between @ l2 # after"
    and "parse_line lib l1 = Inr (Some (t, h1))"
    and "parse_line lib l2 = Inr (Some (t, h2))"
    and "sorts_rows (sort_index lib)"
  shows "\<exists>table h.
           fetch_dart_data lib station_id start end = Inr table \<and>
           filter (\<lambda>row. fst row = t) table = [(t, h)] \<and>
           (\<exists>l\<in>set (splitlines text). parse_line lib l = Inr (Some (t, h))) \<and>
           (filter (\<lambda>row. fst row = t) (sort_index lib records) =
              filter (\<lambda>row. fst row = t) records \<and>
            (\<forall>l\<in>set before. \<forall>h'. parse_line lib l \<noteq> Inr (Some (t, h')))
            \<longrightarrow> h = h1)"
proof -
  let ?key = "\<lambda>row. fst row = t"
  let ?sorted = "sort_index lib records"
  have recs: "records = List.map_filter (reading_of lib) (splitlines text)"
    using scan_lines_records [OF assms(2)] by simp
  have r1: "reading_of lib l1 = Some (t, h1)" using assms(4) by (simp add: reading_of_Some)
  have in_recs: "(t, h1) \<in> set records"
    unfolding recs assms(3) using r1 by (auto simp: map_filter_def intro!: image_eqI [of _ _ l1])
  then have ne: "records \<noteq> []" by auto
  have ms: "mset ?sorted = mset records" using assms(6) by (simp add: sorts_rows_def)
  then have st: "set ?sorted = set records" by (metis set_mset_mset)
  have fetch: "fetch_dart_data lib station_id start end = Inr (drop_duplicated ?sorted)"
    using assms(1,2) ne by (simp add: fetch_dart_data_def parse_text_def build_table_def)
  have "(t, h1) \<in> set (filter ?key ?sorted)" using in_recs st by simp
  then obtain r rs where S: "filter ?key ?sorted = r # rs" by (cases "filter ?key ?sorted") auto
  then have "r \<in> set (filter ?key ?sorted)" by simp
  then have rt: "fst r = t" and rin: "r \<in> set records" using st by auto
  obtain h where r: "r = (t, h)" using rt by (cases r) auto
  have one: "filter ?key (drop_duplicated ?sorted) = [(t, h)]"
    using S r by (simp add: filter_drop_duplicated)
  have "\<exists>l\<in>set (splitlines text). reading_of lib l = Some (t, h)"
    using rin r unfolding recs by (auto simp: map_filter_def)
  then have line: "\<exists>l\<in>set (splitlines text). parse_line lib l = Inr (Some (t, h))"
    by (simp add: reading_of_Some)
  have first: "h = h1"
    if keep: "filter ?key ?sorted = filter ?key records"
      and b: "\<forall>l\<in>set before. \<forall>h'. parse_line lib l \<noteq> Inr (Some (t, h'))"
  proof -
    have "filter ?key (List.map_filter (reading_of lib) before) = []"
    proof -
      have "\<And>x. x \<in> set (List.map_filter (reading_of lib) before) \<Longrightarrow> fst x \<noteq> t"
      proof -
        fix x assume "x \<in> set (List.map_filter (reading_of lib) before)"
        then obtain l where l: "l \<in> set before" "reading_of lib l = Some x"
          by (auto simp: map_filter_def)
        then have "parse_line lib l = Inr (Some x)" by (simp add: reading_of_Some)
        with b l(1) show "fst x \<noteq> t" by (cases x) auto
      qed
      then show ?thesis by (auto simp: filter_empty_conv)
    qed
    moreover have "List.map_filter (reading_of lib) (before @ l1 # between @ l2 # after) =
        List.map_filter (reading_of lib) before @ (t, h1) #
        List.map_filter (reading_of lib) (between @ l2 # after)"
      using r1 by (simp add: map_filter_def)
    ultimately have "filter ?key records =
        (t, h1) # filter ?key (List.map_filter (reading_of lib) (between @ l2 # after))"
      unfolding recs assms(3) by simp
    with keep S r show ?thesis by simp
  qed
  show ?thesis using fetch one line first by blast
qed

text \<open>
  So the first line wins under a sort that keeps rows of equal timestamps in their order,
  as \<^verbatim>\<open>sort_index(kind='stable')\<close> does.
\<close>

lemma first_seen_kept_by_order_keeping_sort:
  fixes lib :: "('ts::linorder, 'h) library"
  assumes "requests_get lib (dart_url station_id start end) = Some text"
    and "scan_lines lib (splitlines text) [] = Inr records"
    and "splitlines text = before @ l1 # between @ l2 # after"
    and "parse_line lib l1 = Inr (Some (t, h1))"
    and "parse_line lib l2 = Inr (Some (t, h2))"
    and "sorts_rows (sort_index lib)"
    and "\<And>rows k. filter (\<lambda>row. fst row = k) (sort_index lib rows) =
                   filter (\<lambda>row. fst row = k) rows"
    and "\<forall>l\<in>set before. \<forall>h'. parse_line lib l \<noteq> Inr (Some (t, h'))"
  shows "\<exists>table. fetch_dart_data lib station_id start end = Inr table \<and>
                 filter (\<lambda>row. fst row = t) table = [(t, h1)]"
  using duplicate_timestamp_keeps_first_sorted_row [OF assms(1-6)] assms(7,8) by blast

lemma lines_of_duplicate_text:
  "splitlines ''20250729120000 1.5\<newline>20250729110000 0.5\<newline>20250729120000 2.5'' =
     [] @ ''20250729120000 1.5'' # [''20250729110000 0.5''] @ ''20250729120000 2.5'' # []"
  by code_simp

lemma records_of_duplicate_text:
  "scan_lines (sample_library response)
     ([] @ ''20250729120000 1.5'' # [''20250729110000 0.5''] @ ''20250729120000 2.5'' # []) [] =
   Inr [(1753790400, 3 / 2), (1753786800, 1 / 2), (1753790400, 5 / 2)]"
  by (simp add: line_eval datetime_eval float_eval sample_library_simps)

lemma readings_of_duplicate_text:
  "parse_line (sample_library response) ''20250729120000 1.5'' = Inr (Some (1753790400, 3 / 2))"
  "parse_line (sample_library response) ''20250729120000 2.5'' = Inr (Some (1753790400, 5 / 2))"
  by (simp_all add: line_eval datetime_eval float_eval sample_library_simps)

lemma duplicate_text_example:
  "\<exists>table.
     fetch_dart_data
       (sample_library
          (Some ''20250729120000 1.5\<newline>20250729110000 0.5\<newline>20250729120000 2.5''))
       ''21416'' start_date end_date = Inr table \<and>
     filter (\<lambda>row. fst row = 1753790400) table = [(1753790400, 3 / 2)]"
proof -
  let ?text = "''20250729120000 1.5\<newline>20250729110000 0.5\<newline>20250729120000 2.5''"
  let ?lib = "sample_library (Some ?text)"
  let ?records = "[(1753790400, 3 / 2), (1753786800, 1 / 2), (1753790400, 5 / 2)] :: (int \<times> rat) list"
  have resp: "requests_get ?lib (dart_url ''21416'' start_date end_date) = Some ?text"
    by (simp add: sample_library_simps)
  have recs: "scan_lines ?lib (splitlines ?text) [] = Inr ?records"
    unfolding lines_of_duplicate_text by (rule records_of_duplicate_text)
  have srt: "sorts_rows (sort_index ?lib)"
    by (simp add: sample_library_simps sorts_rows_sort_key)
  have keep: "filter (\<lambda>row. fst row = 1753790400) (sort_index ?lib ?records) =
              filter (\<lambda>row. fst row = 1753790400) ?records"
    unfolding sample_library_simps by (rule sort_key_stable)
  from duplicate_timestamp_keeps_first_sorted_row
    [OF resp recs lines_of_duplicate_text readings_of_duplicate_text srt]
  obtain table h where
    "fetch_dart_data ?lib ''21416'' start_date end_date = Inr table"
    "filter (\<lambda>row. fst row = 1753790400) table = [(1753790400, h)]"
    "filter (\<lambda>row. fst row = 1753790400) (sort_index ?lib ?records) =
       filter (\<lambda>row. fst row = 1753790400) ?records \<and>
     (\<forall>l\<in>set []. \<forall>h'. parse_line ?lib l \<noteq> Inr (Some (1753790400, h')))
     \<longrightarrow> h = 3 / 2"
    by blast
  with keep show ?thesis by auto
qed

lemma sorts_rows_reversing: "sorts_rows (\<lambda>rows. sort_key fst (rev rows))"
  by (simp add: sorts_rows_def)

lemma reversing_library_simps:
  "requests_get (reversing_library response) url = response"
  "to_datetime (reversing_library response) = pd_to_datetime"
  "float (reversing_library response) = decimal_float"
  "sort_index (reversing_library response) = (\<lambda>rows. sort_key fst (rev rows))"
  by (simp_all add: reversing_library_def)

lemma lines_of_newest_first_feed:
  "splitlines newest_first_feed =
     [''20250729121700 1'', ''20250729121700 2'', ''20250729121600 0'',
      ''20250729121500 0'', ''20250729121400 0'', ''20250729121300 0'',
      ''20250729121200 0'', ''20250729121100 0'', ''20250729121000 0'',
      ''20250729120900 0'', ''20250729120800 0'', ''20250729120700 0'',
      ''20250729120600 0'', ''20250729120500 0'', ''20250729120400 0'',
      ''20250729120300 0'', ''20250729120200 0'', ''20250729120100 0'']"
  by code_simp

lemma records_of_newest_first_feed:
  "scan_lines (reversing_library response) (splitlines newest_first_feed) [] =
   Inr [(1753791420, 1), (1753791420, 2), (1753791360, 0), (1753791300, 0), (1753791240, 0),
        (1753791180, 0), (1753791120, 0), (1753791060, 0), (1753791000, 0), (1753790940, 0),
        (1753790880, 0), (1753790820, 0), (1753790760, 0), (1753790700, 0), (1753790640, 0),
        (1753790580, 0), (1753790520, 0), (1753790460, 0)]"
  by (simp add: lines_of_newest_first_feed line_eval datetime_eval float_eval
        reversing_library_simps)

lemma first_lines_of_newest_first_feed:
  "parse_line (reversing_library response) (splitlines newest_first_feed ! 0) =
     Inr (Some (1753791420, 1))"
  "parse_line (reversing_library response) (splitlines newest_first_feed ! 1) =
     Inr (Some (1753791420, 2))"
  by (simp_all add: lines_of_newest_first_feed line_eval datetime_eval float_eval
        reversing_library_simps)

text \<open>
  Claim C1: of two lines with the same timestamp and different heights, the table keeps
  the height of the line that comes first in the text.  The code sorts with the default
  \<^verbatim>\<open>sort_index()\<close>, which is not stable, and does not keep that height on
  \<open>newest_first_feed\<close>.  The first two lines of the feed have the same timestamp and the
  heights 1 and 2; with a \<^verbatim>\<open>sort_index\<close> that sorts by timestamp and leaves the rows of
  equal timestamps in reverse order, the one row of that timestamp in the table has the
  height 2, the height of the second line.
\<close>

theorem newest_first_feed_keeps_second_line:
  "sorts_rows (sort_index (reversing_library (Some newest_first_feed))) \<and>
   parse_line (reversing_library (Some newest_first_feed)) (splitlines newest_first_feed ! 0) =
     Inr (Some (1753791420, 1)) \<and>
   parse_line (reversing_library (Some newest_first_feed)) (splitlines newest_first_feed ! 1) =
     Inr (Some (1753791420, 2)) \<and>
   fetch_dart_data (reversing_library (Some newest_first_feed)) ''21416'' start_date end_date =
     Inr [(1753790460, 0), (1753790520, 0), (1753790580, 0), (1753790640, 0),
          (1753790700, 0), (1753790760, 0), (1753790820, 0), (1753790880, 0),
          (1753790940, 0), (1753791000, 0), (1753791060, 0), (1753791120, 0),
          (1753791180, 0), (1753791240, 0), (1753791300, 0), (1753791360, 0),
          (1753791420, 2)]"
proof -
  have "fetch_dart_data (reversing_library (Some newest_first_feed)) ''21416'' start_date end_date =
     Inr [(1753790460, 0), (1753790520, 0), (1753790580, 0), (1753790640, 0),
          (1753790700, 0), (1753790760, 0), (1753790820, 0), (1753790880, 0),
          (1753790940, 0), (1753791000, 0), (1753791060, 0), (1753791120, 0),
          (1753791180, 0), (1753791240, 0), (1753791300, 0), (1753791360, 0),
          (1753791420, 2)]"
    using records_of_newest_first_feed [of "Some newest_first_feed"]
    by (simp add: fetch_dart_data_def parse_text_def build_table_def drop_duplicated_def
          reversing_library_simps)
  moreover have "sorts_rows (sort_index (reversing_library (Some newest_first_feed)))"
    by (simp add: reversing_library_simps sorts_rows_reversing)
  ultimately show ?thesis
    using first_lines_of_newest_first_feed [of "Some newest_first_feed"] by blast
qed

section \<open>The join and the run\<close>

text \<open>
  The index of a table that \<open>fetch_dart_data\<close> returns has no timestamp twice, whatever
  the library calls return: the frames that reach \<^verbatim>\<open>pd.concat\<close> can always be aligned.
\<close>

lemma fetch_dart_data_index_distinct:
  "fetch_dart_data lib station_id start end = Inr table \<Longrightarrow> distinct (map fst table)"
  by (auto simp: fetch_dart_data_def parse_text_def build_table_def drop_duplicated_distinct
           split: option.splits sum.splits if_splits)

text \<open>
  Claim C7.  The join of two station tables has the two station names as columns and a
  row at exactly the timestamps that are in the index of one table or the other.  At a
  timestamp that only one table has, the row holds that table's height and the marker
  \<open>None\<close> for the other station: the row is kept, and the missing value is not a
  number.  At a timestamp of both, the row holds both heights.
\<close>

theorem outer_join_keys_are_union:
  assumes "distinct (map fst a)" and "distinct (map fst b)"
  shows "fst (concat_axis1 [(na, a), (nb, b)]) = [na, nb] \<and>
         dom (snd (concat_axis1 [(na, a), (nb, b)])) = fst ` set a \<union> fst ` set b \<and>
         (\<forall>t h. (t, h) \<in> set a \<and> t \<notin> fst ` set b \<longrightarrow>
            snd (concat_axis1 [(na, a), (nb, b)]) t = Some [Some h, None]) \<and>
         (\<forall>t h. (t, h) \<in> set b \<and> t \<notin> fst ` set a \<longrightarrow>
            snd (concat_axis1 [(na, a), (nb, b)]) t = Some [None, Some h]) \<and>
         (\<forall>t h k. (t, h) \<in> set a \<and> (t, k) \<in> set b \<longrightarrow>
            snd (concat_axis1 [(na, a), (nb, b)]) t = Some [Some h, Some k])"
proof -
  have keys: "dom (snd (concat_axis1 [(na, a), (nb, b)])) = fst ` set a \<union> fst ` set b"
    by (auto simp: concat_axis1_def dom_def split: if_splits)
  have none_a: "map_of a t = None" if "t \<notin> fst ` set a" for t
    using that by (simp add: map_of_eq_None_iff)
  have none_b: "map_of b t = None" if "t \<notin> fst ` set b" for t
    using that by (simp add: map_of_eq_None_iff)
  have some_a: "map_of a t = Some h" if "(t, h) \<in> set a" for t h
    using that assms(1) by simp
  have some_b: "map_of b t = Some h" if "(t, h) \<in> set b" for t h
    using that assms(2) by simp
  show ?thesis
    using keys none_a none_b some_a some_b
    by (auto simp: concat_axis1_def image_iff)
qed

theorem outer_join_keys_are_union_witness:
  "dom (snd (concat_axis1 [(''A'', [(1::nat, 10::int), (2, 20)]), (''B'', [(2, 21), (3, 31)])])) =
     {1, 2, 3} \<and>
   snd (concat_axis1 [(''A'', [(1::nat, 10::int), (2, 20)]), (''B'', [(2, 21), (3, 31)])]) 1 =
     Some [Some 10, None] \<and>
   snd (concat_axis1 [(''A'', [(1::nat, 10::int), (2, 20)]), (''B'', [(2, 21), (3, 31)])]) 3 =
     Some [None, Some 31] \<and>
   snd (concat_axis1 [(''A'', [(1::nat, 10::int), (2, 20)]), (''B'', [(2, 21), (3, 31)])]) 2 =
     Some [Some 20, Some 21]"
  using outer_join_keys_are_union
    [of "[(1::nat, 10::int), (2, 20)]" "[(2, 21), (3, 31)]" "''A''" "''B''"]
  by auto













end
